theory Spec2Isabelle
  imports Complex_Main "HOL-Library.Word" "HOL-Library.AList"
begin

section \<open>Python values, exceptions and strings\<close>

text \<open>
  The values that travel through the crawler: what \<open>json.loads\<close> can return, and what
  an item's fields hold. A \<open>float\<close> is kept as its 64 bits; a \<open>dict\<close> keeps its keys
  in insertion order, each key once.
\<close>

datatype pyval =
    PNone
  | PBool bool
  | PInt int
  | PFloat "64 word"
  | PStr string
  | PList "pyval list"
  | PDict "(string \<times> pyval) list"

text \<open>
  The exceptions the modelled code can meet. All of them derive from \<open>Exception\<close>, so an
  \<open>except Exception\<close> clause catches each one. \<open>APIError\<close> stands for whatever a remote
  collaborator raises (timeout, transport failure, malformed answer).
\<close>

datatype pyexn = TypeError | AttributeError | KeyError | APIError string


text \<open>\<open>d.get(k, default)\<close> on a \<open>dict\<close>.\<close>

definition dict_get :: "(string \<times> pyval) list \<Rightarrow> string \<Rightarrow> pyval \<Rightarrow> pyval" where
  "dict_get d k dflt = (case map_of d k of None \<Rightarrow> dflt | Some v \<Rightarrow> v)"

text \<open>
  Strings are lists of characters. The text is taken to be ASCII: \<open>lower()\<close> folds the
  letters \<open>A\<close> to \<open>Z\<close> and leaves every other character alone, and the character
  classes below are the ASCII ones.
\<close>

definition upper_chars :: string where
  "upper_chars = ''ABCDEFGHIJKLMNOPQRSTUVWXYZ''"

definition lower_chars :: string where
  "lower_chars = ''abcdefghijklmnopqrstuvwxyz''"

definition digit_chars :: string where
  "digit_chars = ''0123456789''"

definition lower_char :: "char \<Rightarrow> char" where
  "lower_char c = (case map_of (zip upper_chars lower_chars) c of Some d \<Rightarrow> d | None \<Rightarrow> c)"

definition lower :: "string \<Rightarrow> string" where
  "lower s = map lower_char s"

text \<open>\<open>s.startswith(p)\<close> and the substring test \<open>k in s\<close>.\<close>

fun starts_with :: "string \<Rightarrow> string \<Rightarrow> bool" where
  "starts_with [] s = True"
| "starts_with (p # ps) [] = False"
| "starts_with (p # ps) (c # cs) = (p = c \<and> starts_with ps cs)"

fun str_in :: "string \<Rightarrow> string \<Rightarrow> bool" where
  "str_in k [] = (k = [])"
| "str_in k (c # cs) = (starts_with k (c # cs) \<or> str_in k cs)"

section \<open>Input sanitising (DeepScrape/webscraper/processing/input\_sanitizer.py)\<close>

text \<open>
  \<^verbatim>\<open>
  TAG_RE = re.compile(r"(?is)<(script|iframe)[^>]*>.*?</\\1>")
  def strip_scripts(self, html_or_text): return self.TAG_RE.sub("", html_or_text)
  def remove_iframes(self, html_or_text): return self.TAG_RE.sub("", html_or_text)
  \<close>
  The pattern is a raw string, so the regular expression ends in \<open><\<close>, \<open>/\<close>, an
  escaped backslash, \<open>1\<close> and \<open>>\<close>. The closing delimiter it looks for is therefore
  the five characters \<open><\<close>, \<open>/\<close>, backslash, \<open>1\<close>, \<open>>\<close> taken literally, not a
  back-reference to the tag name.

  A match at the head of a text: \<open><\<close>, then \<open>script\<close> or \<open>iframe\<close> in any case, then
  everything up to the first \<open>>\<close> (the class \<open>[^>]*\<close> cannot cross one), then the
  shortest text up to the first closing delimiter. \<open>TAG_RE_match\<close> returns what follows
  the match.
\<close>

definition closing_delimiter :: string where
  "closing_delimiter = ''</'' @ [CHR 0x5C] @ ''1>''"

fun find_after :: "string \<Rightarrow> string \<Rightarrow> string option" where
  "find_after p [] = (if p = [] then Some [] else None)"
| "find_after p (c # cs) =
     (if starts_with p (c # cs) then Some (drop (length p) (c # cs)) else find_after p cs)"

definition after_gt :: "string \<Rightarrow> string option" where
  "after_gt s = (case dropWhile (\<lambda>c. c \<noteq> CHR ''>'') s of [] \<Rightarrow> None | g # r \<Rightarrow> Some r)"

definition TAG_RE_match :: "string \<Rightarrow> string option" where
  "TAG_RE_match s =
     (case s of
        [] \<Rightarrow> None
      | c # r \<Rightarrow>
          if c = CHR ''<'' \<and> (lower (take 6 r) = ''script'' \<or> lower (take 6 r) = ''iframe'')
          then (case after_gt (drop 6 r) of
                  None \<Rightarrow> None
                | Some body \<Rightarrow> find_after closing_delimiter body)
          else None)"

lemma find_after_length: "find_after p s = Some r \<Longrightarrow> length r \<le> length s"
  by (induction s) (auto split: if_splits)

lemma after_gt_length: "after_gt s = Some r \<Longrightarrow> length r < length s"
proof -
  assume a: "after_gt s = Some r"
  then obtain g where "dropWhile (\<lambda>c. c \<noteq> CHR ''>'') s = g # r"
    by (auto simp: after_gt_def split: list.splits)
  moreover have "length (dropWhile (\<lambda>c. c \<noteq> CHR ''>'') s) \<le> length s"
    by (rule length_dropWhile_le)
  ultimately show ?thesis by simp
qed

lemma TAG_RE_match_length: "TAG_RE_match s = Some r \<Longrightarrow> length r < length s"
proof -
  assume a: "TAG_RE_match s = Some r"
  then obtain c t body where s: "s = c # t" and b: "after_gt (drop 6 t) = Some body"
    and f: "find_after closing_delimiter body = Some r"
    by (auto simp: TAG_RE_match_def split: list.splits if_splits option.splits)
  from b have "length body < length (drop 6 t)" by (rule after_gt_length)
  moreover from f have "length r \<le> length body" by (rule find_after_length)
  ultimately show ?thesis using s by simp
qed

text \<open>
  \<open>TAG_RE.sub("", s)\<close>: scan from the left; where the pattern matches, drop the match
  and go on after it; elsewhere keep the character.
\<close>

function TAG_RE_sub :: "string \<Rightarrow> string" where
  "TAG_RE_sub [] = []"
| "TAG_RE_sub (c # cs) =
     (case TAG_RE_match (c # cs) of
        Some rest \<Rightarrow> TAG_RE_sub rest
      | None \<Rightarrow> c # TAG_RE_sub cs)"
  by pat_completeness auto
termination
  by (relation "measure length") (auto dest: TAG_RE_match_length)

definition strip_scripts :: "string \<Rightarrow> string" where
  "strip_scripts html_or_text = TAG_RE_sub html_or_text"

definition remove_iframes :: "string \<Rightarrow> string" where
  "remove_iframes html_or_text = TAG_RE_sub html_or_text"

section \<open>The URL frontier (DeepScrape/webscraper/url/url\_manager.py)\<close>

text \<open>
  \<^verbatim>\<open>
  class URLManager:
      def __init__(self, max_urls: int = 200):
          self.visited = set()
          self.queue = deque()
          self.max = max_urls
  \<close>
  The field \<open>self.max\<close> is called \<open>max_urls\<close> here (\<open>max\<close> is a constant of HOL).
  It is a Python integer, so nothing forbids a negative value.
\<close>

record URLManager =
  visited :: "string set"
  queue :: "string list"
  max_urls :: int

definition URLManager_init :: "int \<Rightarrow> URLManager" where
  "URLManager_init n = \<lparr>visited = {}, queue = [], max_urls = n\<rparr>"

text \<open>
  \<^verbatim>\<open>
  def add_urls(self, urls):
      for u in urls:
          if u not in self.visited and len(self.queue) < self.max:
              self.queue.append(u)
  \<close>
\<close>

fun add_urls :: "URLManager \<Rightarrow> string list \<Rightarrow> URLManager" where
  "add_urls m [] = m"
| "add_urls m (u # us) =
     add_urls
       (if u \<notin> visited m \<and> int (length (queue m)) < max_urls m
        then m\<lparr>queue := queue m @ [u]\<rparr>
        else m) us"

text \<open>
  \<^verbatim>\<open>
  def get_next_url(self):
      return self.queue.popleft() if self.queue else None
  def mark_visited(self, u): self.visited.add(u)
  def should_visit(self, u):
      return (u not in self.visited) and (len(self.visited) < self.max)
  \<close>
  \<open>get_next_url\<close> returns the popped URL (or \<open>None\<close>) together with the new state.
\<close>

definition get_next_url :: "URLManager \<Rightarrow> string option \<times> URLManager" where
  "get_next_url m =
     (case queue m of
        [] \<Rightarrow> (None, m)
      | u # rest \<Rightarrow> (Some u, m\<lparr>queue := rest\<rparr>))"

definition mark_visited :: "URLManager \<Rightarrow> string \<Rightarrow> URLManager" where
  "mark_visited m u = m\<lparr>visited := insert u (visited m)\<rparr>"

definition should_visit :: "URLManager \<Rightarrow> string \<Rightarrow> bool" where
  "should_visit m u \<longleftrightarrow> u \<notin> visited m \<and> int (card (visited m)) < max_urls m"

text \<open>
  A client of the frontier issues the three mutating calls in any order; a run is the
  list of the calls it made.
\<close>

datatype frontier_call = AddUrls "string list" | NextUrl | MarkVisited string

fun frontier_step :: "URLManager \<Rightarrow> frontier_call \<Rightarrow> URLManager" where
  "frontier_step m (AddUrls us) = add_urls m us"
| "frontier_step m NextUrl = snd (get_next_url m)"
| "frontier_step m (MarkVisited u) = mark_visited m u"

definition frontier_run :: "URLManager \<Rightarrow> frontier_call list \<Rightarrow> URLManager" where
  "frontier_run m cs = foldl frontier_step m cs"

section \<open>Item processing (DeepScrape/webscraper/processing, webscraper/deepseek)\<close>

text \<open>
  Modelled from the spec: the class \<open>CrawlItem\<close> of \<open>webscraper/models/crawl_item.py\<close>,
  which is not among the sources. Its fields are the three that \<open>KeywordSpider.parse\<close>
  passes to its constructor; an instance is truthy; \<open>to_dict()\<close> returns the fields by
  name.
\<close>

record CrawlItem =
  url :: string
  title :: string
  content :: string

definition to_dict :: "CrawlItem \<Rightarrow> (string \<times> pyval) list" where
  "to_dict item =
     [(''url'', PStr (url item)), (''title'', PStr (title item)),
      (''content'', PStr (content item))]"

text \<open>
  \<^verbatim>\<open>
  class DeepSeekAdapter:
      def extract_json(self, text: str, fields, hint: dict):
          # TODO: wire actual API client; for now return empty keys.
          return {k: "" for k in fields}
  class DeepSeekParser:
      def parse_data(self, text: str, fields):
          return self.adapter.extract_json(text, fields=fields, hint={})
  \<close>
  \<open>fields\<close> (written \<open>flds\<close> below: the record package owns the name) is a list of
  field names or \<open>None\<close>; iterating over \<open>None\<close> raises \<open>TypeError\<close>. An adapter is any function of this shape: the one in the sources is a
  placeholder for a client that "returns strict JSON (or raises)".
\<close>

type_synonym adapter = "string \<Rightarrow> string list option \<Rightarrow> pyexn + pyval"

definition DeepSeekAdapter_extract_json :: adapter where
  "DeepSeekAdapter_extract_json text flds =
     (case flds of
        None \<Rightarrow> Inl TypeError
      | Some ks \<Rightarrow> Inr (PDict (foldl (\<lambda>d k. AList.update k (PStr []) d) [] ks)))"

definition parse_data :: "adapter \<Rightarrow> string \<Rightarrow> string list option \<Rightarrow> pyexn + pyval" where
  "parse_data adapter text flds = adapter text flds"

text \<open>
  \<^verbatim>\<open>
  def validate(self, data: dict, required):
      if not isinstance(data, dict): return False
      for k in (required or []):
          if k not in data: return False
      return True
  \<close>
\<close>

definition validate :: "pyval \<Rightarrow> string list option \<Rightarrow> bool" where
  "validate data required =
     (case data of
        PDict d \<Rightarrow>
          list_all (\<lambda>k. map_of d k \<noteq> None) (case required of None \<Rightarrow> [] | Some ks \<Rightarrow> ks)
      | _ \<Rightarrow> False)"

text \<open>
  \<^verbatim>\<open>
  def clean_text(self, text: str) -> str:
      return self.sanitizer.strip_scripts(self.sanitizer.remove_iframes(text))

  def process_item(self, item, fields):
      item.content = self.clean_text(item.content)
      try:
          data = self.deepseek.parse_data(item.content, fields=fields)
          if self.validator.validate(data, required=fields):
              return item
      except Exception:
          return None
      return item
  \<close>
  The item is an object the caller holds: \<open>process_item\<close> returns the item as the call
  leaves it, and beside it the value the call returns (\<open>None\<close>, or the same item).
\<close>

definition clean_text :: "string \<Rightarrow> string" where
  "clean_text text = strip_scripts (remove_iframes text)"

definition process_item ::
  "adapter \<Rightarrow> CrawlItem \<Rightarrow> string list option \<Rightarrow> CrawlItem \<times> CrawlItem option" where
  "process_item adapter item flds =
     (let item' = item\<lparr>content := clean_text (content item)\<rparr> in
      case parse_data adapter (content item') flds of
        Inl e \<Rightarrow> (item', None)
      | Inr data \<Rightarrow>
          if validate data flds then (item', Some item')
          else (item', Some item'))"

section \<open>The spider (DeepScrape/webscraper/spiders/keyword\_spider.py)\<close>

text \<open>
  What one request brings back: a failure (\<open>httpx.get\<close> or \<open>raise_for_status\<close> raised),
  or a page, of which the spider reads \<open>soup.title\<close> (absent, or a tag whose \<open>.string\<close>
  is a string or \<open>None\<close>) and the text \<open>soup.get_text(separator=" ", strip=True)\<close>.
\<close>

datatype title_tag = NoTitle | Title "string option"

datatype response = RequestFailed | Page title_tag string

definition whitespace_chars :: string where
  "whitespace_chars =
     [CHR 0x09, CHR 0x0A, CHR 0x0B, CHR 0x0C, CHR 0x0D,
      CHR 0x1C, CHR 0x1D, CHR 0x1E, CHR 0x1F, CHR 0x20]"

definition is_space :: "char \<Rightarrow> bool" where
  "is_space c \<longleftrightarrow> c \<in> set whitespace_chars"

definition strip :: "string \<Rightarrow> string" where
  "strip s = rev (dropWhile is_space (rev (dropWhile is_space s)))"

record KeywordSpider =
  spider_keywords :: "string list"

definition KeywordSpider_init :: "string list option \<Rightarrow> KeywordSpider" where
  "KeywordSpider_init keywords =
     \<lparr>spider_keywords = (case keywords of None \<Rightarrow> [] | Some ks \<Rightarrow> ks)\<rparr>"

text \<open>
  \<^verbatim>\<open>
  def parse(self, url: str):
      try:
          r = httpx.get(url, timeout=15)
          r.raise_for_status()
      except Exception:
          return []
      soup = BeautifulSoup(r.text, "lxml")
      title = (soup.title.string.strip() if soup.title else "") or url
      text = soup.get_text(separator=" ", strip=True)
      yield CrawlItem(url=url, title=title, content=text)
  \<close>
  A generator: a failed request ends it with no item. \<open>soup.title.string\<close> is read
  outside the \<open>try\<close>, so a title tag without a string raises \<open>AttributeError\<close> to the
  caller.
\<close>

definition parse :: "response \<Rightarrow> string \<Rightarrow> pyexn + CrawlItem list" where
  "parse r u =
     (case r of
        RequestFailed \<Rightarrow> Inr []
      | Page NoTitle text \<Rightarrow> Inr [\<lparr>url = u, title = u, content = text\<rparr>]
      | Page (Title None) text \<Rightarrow> Inl AttributeError
      | Page (Title (Some s)) text \<Rightarrow>
          Inr [\<lparr>url = u, title = (if strip s = [] then u else strip s), content = text\<rparr>])"

section \<open>The crawl loop (DeepScrape/webscraper/manager/crawler\_manager.py)\<close>

text \<open>
  The manager holds the frontier, the spiders it created and the storage. Of the storage
  the model keeps the calls of \<open>save_data(rows, filename)\<close> it received, oldest first.
\<close>

type_synonym row = "(string \<times> pyval) list"

record CrawlerManager =
  url_manager :: URLManager
  spiders :: "KeywordSpider list"
  storage :: "(row list \<times> string) list"

text \<open>
  \<^verbatim>\<open>
  for item in spider.parse(url):
      processed = self.data_processor.process_item(item, fields=fields)
      if processed:
          rows.append(processed.to_dict())
  \<close>
\<close>

fun process_items :: "adapter \<Rightarrow> string list option \<Rightarrow> CrawlItem list \<Rightarrow> row list \<Rightarrow> row list" where
  "process_items adapter flds [] rows = rows"
| "process_items adapter flds (item # items) rows =
     (case snd (process_item adapter item flds) of
        None \<Rightarrow> process_items adapter flds items rows
      | Some processed \<Rightarrow> process_items adapter flds items (rows @ [to_dict processed]))"

text \<open>
  \<^verbatim>\<open>
  while True:
      url = self.url_manager.get_next_url()
      if not url:
          break
      for item in spider.parse(url): ...
  \<close>
  \<open>web n u\<close> is what the \<open>n\<close>-th request of the run brings back for the URL \<open>u\<close>.
  \<open>not url\<close> holds of \<open>None\<close> and of the empty string. The loop returns the frontier
  and the rows, or the exception that left it.
\<close>

function crawl_loop ::
  "(nat \<Rightarrow> string \<Rightarrow> response) \<Rightarrow> adapter \<Rightarrow> string list option \<Rightarrow>
   nat \<Rightarrow> URLManager \<Rightarrow> row list \<Rightarrow> pyexn + (URLManager \<times> row list)" where
  "crawl_loop web adapter flds n um rows =
     (case fst (get_next_url um) of
        None \<Rightarrow> Inr (snd (get_next_url um), rows)
      | Some u \<Rightarrow>
          if u = [] then Inr (snd (get_next_url um), rows)
          else (case parse (web n u) u of
                  Inl e \<Rightarrow> Inl e
                | Inr items \<Rightarrow>
                    crawl_loop web adapter flds (Suc n) (snd (get_next_url um))
                      (process_items adapter flds items rows)))"
  by pat_completeness auto
termination
  by (relation "measure (\<lambda>(web, adapter, flds, n, um, rows). length (queue um))")
     (auto simp: get_next_url_def split: list.splits)

text \<open>
  \<^verbatim>\<open>
  def start_crawl(self, urls, keywords, fields):
      spider = KeywordSpider(keywords=keywords, data_processor=self.data_processor)
      self.spiders.append(spider)
      self.url_manager.add_urls(urls)
      rows = []
      while True: ...
      if rows:
          self.storage.save_data(rows, "export")
      return {"items": len(rows)}
  \<close>
  The result is the number under \<open>"items"\<close> and the manager as the call leaves it.
\<close>

definition start_crawl ::
  "(nat \<Rightarrow> string \<Rightarrow> response) \<Rightarrow> adapter \<Rightarrow> CrawlerManager \<Rightarrow>
   string list \<Rightarrow> string list option \<Rightarrow> string list option \<Rightarrow> pyexn + (nat \<times> CrawlerManager)" where
  "start_crawl web adapter cm urls keywords flds =
     (let cm1 = cm\<lparr>spiders := spiders cm @ [KeywordSpider_init keywords],
                    url_manager := add_urls (url_manager cm) urls\<rparr>
      in case crawl_loop web adapter flds 0 (url_manager cm1) [] of
           Inl e \<Rightarrow> Inl e
         | Inr (um, rows) \<Rightarrow>
             Inr (length rows,
                  (if rows \<noteq> []
                   then cm1\<lparr>url_manager := um, storage := storage cm1 @ [(rows, ''export'')]\<rparr>
                   else cm1\<lparr>url_manager := um\<rparr>)))"

text \<open>\<open>WebScraperApp.__init__\<close>: a manager over a fresh \<open>URLManager()\<close> (capacity 200).\<close>

definition CrawlerManager_init :: CrawlerManager where
  "CrawlerManager_init = \<lparr>url_manager = URLManager_init 200, spiders = [], storage = []\<rparr>"

section \<open>Scrapy items and pipeline outcomes (web-crawler-project/HTMLCrawler)\<close>

text \<open>
  A Scrapy item is a dictionary from field names to values; \<open>item.get(k, default)\<close>
  reads it. A pipeline's \<open>process_item\<close> returns the item, raises \<open>DropItem\<close> with a
  message, or lets another exception escape.
\<close>

type_synonym item = "string \<rightharpoonup> pyval"






section \<open>Keyword matching (HTMLCrawler/pipelines.py, \<open>KeywordMatchingPipeline\<close>)\<close>






section \<open>The fallback analysis (HTMLCrawler/deepseek\_parser.py)\<close>

definition is_upper :: "char \<Rightarrow> bool" where
  "is_upper c \<longleftrightarrow> c \<in> set upper_chars"

definition is_lower :: "char \<Rightarrow> bool" where
  "is_lower c \<longleftrightarrow> c \<in> set lower_chars"

definition is_word :: "char \<Rightarrow> bool" where
  "is_word c \<longleftrightarrow> c \<in> set (upper_chars @ lower_chars @ digit_chars @ ''_'')"

text \<open>\<open>content.split()\<close>: the maximal runs of characters that are not white space.\<close>

fun str_split :: "string \<Rightarrow> string \<Rightarrow> string list" where
  "str_split word [] = (if word = [] then [] else [word])"
| "str_split word (c # cs) =
     (if is_space c
      then (if word = [] then str_split [] cs else word # str_split [] cs)
      else str_split (word @ [c]) cs)"

text \<open>
  \<open>re.findall(r'\b[A-Z][a-z]+\b', content)\<close>: a capital letter that does not follow a word
  character, then the longest run of small letters, which must be non-empty and must not
  be followed by a word character (a shorter run would end before a small letter, where
  there is no word boundary either). The flag says whether the character before the text
  is a word character; after a match it is, the match ending in a small letter.
\<close>

function findall_capitalized :: "bool \<Rightarrow> string \<Rightarrow> string list" where
  "findall_capitalized pw [] = []"
| "findall_capitalized pw (c # cs) =
     (if \<not> pw \<and> is_upper c \<and> takeWhile is_lower cs \<noteq> [] \<and>
         (case dropWhile is_lower cs of [] \<Rightarrow> True | d # ds \<Rightarrow> \<not> is_word d)
      then (c # takeWhile is_lower cs) # findall_capitalized True (dropWhile is_lower cs)
      else findall_capitalized (is_word c) cs)"
  by pat_completeness auto
termination
  by (relation "measure (\<lambda>(pw, s). length s)")
     (auto simp: less_Suc_eq_le length_dropWhile_le)

text \<open>
  \<open>re.split(r'[.!?]+', content)\<close>: the pieces between the runs of sentence marks; the
  list is never empty. The flag says whether the character before the text is a mark.
\<close>

definition is_mark :: "char \<Rightarrow> bool" where
  "is_mark c \<longleftrightarrow> c \<in> set ''.!?''"

fun re_split_marks :: "bool \<Rightarrow> string \<Rightarrow> string list" where
  "re_split_marks after_mark [] = [[]]"
| "re_split_marks after_mark (c # cs) =
     (if is_mark c
      then (if after_mark then re_split_marks True cs else [] # re_split_marks True cs)
      else (case re_split_marks False cs of
              [] \<Rightarrow> [[c]]
            | s # ss \<Rightarrow> (c # s) # ss))"

definition positive_words :: "string list" where
  "positive_words = [''good'', ''great'', ''excellent'', ''amazing'', ''wonderful'', ''fantastic'']"

definition negative_words :: "string list" where
  "negative_words = [''bad'', ''terrible'', ''awful'', ''horrible'', ''poor'', ''disappointing'']"

text \<open>
  \<^verbatim>\<open>
  def _fallback_parse(self, content: str, url: str, title: str) -> Dict[str, Any]:
      word_count = len(content.split())
      positive_words = [...]; negative_words = [...]
      pos_count = sum(1 for word in positive_words if word in content.lower())
      neg_count = sum(1 for word in negative_words if word in content.lower())
      if pos_count > neg_count: sentiment = 'positive'
      elif neg_count > pos_count: sentiment = 'negative'
      else: sentiment = 'neutral'
      entities = list(set(re.findall(r'\b[A-Z][a-z]+\b', content)))[:10]
      sentences = re.split(r'[.!?]+', content)
      summary = sentences[0][:200] + "..." if sentences and len(sentences[0]) > 200 \
                else sentences[0] if sentences else ""
      return {'summary': summary.strip(), 'entities': entities, 'topics': [],
              'sentiment': sentiment, 'key_points': [],
              'structured_data': {'word_count': word_count, 'content_type': 'webpage',
                                  'parser_used': 'fallback'},
              'analysis_timestamp': datetime.now().isoformat(),
              'parser_used': 'fallback'}
  \<close>
  The argument \<open>content\<close> is written \<open>body\<close> (the name is a field of \<open>CrawlItem\<close>).
  Two things come from the runtime and are parameters: \<open>set_order\<close>, the order in which
  \<open>list(set(xs))\<close> lists the distinct elements of \<open>xs\<close>, and \<open>now\<close>, the time stamp.
\<close>

definition fallback_sentiment :: "string \<Rightarrow> string" where
  "fallback_sentiment body =
     (let pos_count = length (filter (\<lambda>word. str_in word (lower body)) positive_words);
          neg_count = length (filter (\<lambda>word. str_in word (lower body)) negative_words)
      in if pos_count > neg_count then ''positive''
         else if neg_count > pos_count then ''negative''
         else ''neutral'')"

definition fallback_summary :: "string \<Rightarrow> string" where
  "fallback_summary body =
     (case re_split_marks False body of
        [] \<Rightarrow> []
      | s # ss \<Rightarrow> if length s > 200 then take 200 s @ ''...'' else s)"

definition fallback_parse ::
  "(string list \<Rightarrow> string list) \<Rightarrow> string \<Rightarrow> string \<Rightarrow> string \<Rightarrow> string \<Rightarrow> pyval" where
  "fallback_parse set_order now body u t =
     PDict
       [(''summary'', PStr (strip (fallback_summary body))),
        (''entities'', PList (map PStr (take 10 (set_order (findall_capitalized False body))))),
        (''topics'', PList []),
        (''sentiment'', PStr (fallback_sentiment body)),
        (''key_points'', PList []),
        (''structured_data'',
           PDict [(''word_count'', PInt (int (length (str_split [] body)))),
                  (''content_type'', PStr ''webpage''),
                  (''parser_used'', PStr ''fallback'')]),
        (''analysis_timestamp'', PStr now),
        (''parser_used'', PStr ''fallback'')]"

text \<open>
  \<^verbatim>\<open>
  def __init__(self, api_key=None, base_url="https://api.deepseek.com"):
      self.api_key = api_key or os.getenv('DEEPSEEK_API_KEY')
      if self.api_key: ...; self.enabled = True
      else: self.client = None; self.enabled = False

  def parse_content(self, content, url="", title=""):
      if not self.enabled:
          return self._fallback_parse(content, url, title)
      try:
          analysis_prompt = self._build_analysis_prompt(content, url, title)
          response = self.client.chat.completions.create(...)
          analysis_text = response.choices[0].message.content
          parsed_data = self._parse_ai_response(analysis_text)
          return {'summary': parsed_data.get('summary', ''), ...,
                  'analysis_timestamp': datetime.now().isoformat(),
                  'parser_used': 'deepseek'}
      except Exception as e:
          logging.error(f"DeepSeek parsing failed: {e}")
          return self._fallback_parse(content, url, title)
  \<close>
  The remote call and the reading of its answer are the parameter \<open>analyse\<close>: it yields
  \<open>parsed_data\<close> or raises. \<open>parsed_data.get\<close> raises \<open>AttributeError\<close> when
  \<open>parsed_data\<close> is no dictionary, which the \<open>except\<close> clause catches like the rest.
\<close>

record DeepSeekParser =
  enabled :: bool

definition DeepSeekParser_init :: "string option \<Rightarrow> string option \<Rightarrow> DeepSeekParser" where
  "DeepSeekParser_init api_key env_key =
     \<lparr>enabled =
        (case (if api_key = None \<or> api_key = Some [] then env_key else api_key) of
           None \<Rightarrow> False
         | Some k \<Rightarrow> k \<noteq> [])\<rparr>"

definition is_enabled :: "DeepSeekParser \<Rightarrow> bool" where
  "is_enabled p = enabled p"

definition parse_content ::
  "DeepSeekParser \<Rightarrow> (string \<Rightarrow> string \<Rightarrow> string \<Rightarrow> pyexn + pyval) \<Rightarrow>
   (string list \<Rightarrow> string list) \<Rightarrow> string \<Rightarrow> string \<Rightarrow> string \<Rightarrow> string \<Rightarrow> pyexn + pyval" where
  "parse_content p analyse set_order now body u t =
     (if \<not> enabled p then Inr (fallback_parse set_order now body u t)
      else
        (case analyse body u t of
           Inl e \<Rightarrow> Inr (fallback_parse set_order now body u t)
         | Inr (PDict parsed_data) \<Rightarrow>
             Inr (PDict
               [(''summary'', dict_get parsed_data ''summary'' (PStr [])),
                (''entities'', dict_get parsed_data ''entities'' (PList [])),
                (''topics'', dict_get parsed_data ''topics'' (PList [])),
                (''sentiment'', dict_get parsed_data ''sentiment'' (PStr ''neutral'')),
                (''key_points'', dict_get parsed_data ''key_points'' (PList [])),
                (''structured_data'', dict_get parsed_data ''structured_data'' (PDict [])),
                (''analysis_timestamp'', PStr now),
                (''parser_used'', PStr ''deepseek'')])
         | Inr other \<Rightarrow> Inr (fallback_parse set_order now body u t)))"

section \<open>The analysis stage (HTMLCrawler/pipelines.py, \<open>DeepSeekAnalysisPipeline\<close>)\<close>







definition required_keys :: "string list" where
  "required_keys =
     [''summary'', ''entities'', ''topics'', ''sentiment'', ''key_points'', ''structured_data'']"

section \<open>The relevance score (DeepScrape/webscraper/processing/data\_processor.py)\<close>

text \<open>
  \<^verbatim>\<open>
  def calculate_relevance_score(self, content: str) -> float:
      return min(1.0, len(content) / 5000.0)
  \<close>
  The division is one of binary64 floating-point numbers: \<open>len(content)\<close> is converted to
  the nearest float, divided, and the quotient rounded to the nearest float, ties going to
  the even significand. A float is modelled by the real number it denotes.
  \<open>float_round x\<close> is the float nearest to \<open>x\<close>: with \<open>2 ^ e \<le> \<bar>x\<bar> < 2 ^ (e + 1)\<close> the
  floats around \<open>x\<close> are the multiples of \<open>2 ^ (e - 52)\<close>, 53 bits of significand. The
  exponent is not bounded in the model; the values met here are \<open>0\<close> or lie between
  \<open>1 / 5000\<close> and the length of a string, below \<open>2 ^ 63\<close>, where binary64 has neither
  subnormal numbers nor overflow. The constants \<open>1.0\<close> and \<open>5000.0\<close> are floats.
\<close>

definition round_half_even :: "real \<Rightarrow> int" where
  "round_half_even x =
     (if x - of_int \<lfloor>x\<rfloor> < 1 / 2 then \<lfloor>x\<rfloor>
      else if 1 / 2 < x - of_int \<lfloor>x\<rfloor> then \<lfloor>x\<rfloor> + 1
      else if even \<lfloor>x\<rfloor> then \<lfloor>x\<rfloor> else \<lfloor>x\<rfloor> + 1)"

definition float_exponent :: "real \<Rightarrow> int" where
  "float_exponent x = \<lfloor>log 2 \<bar>x\<bar>\<rfloor>"

text \<open>The spacing of the floats around \<open>x\<close>.\<close>

definition ulp :: "real \<Rightarrow> real" where
  "ulp x = 2 powr (of_int (float_exponent x) - 52)"

definition float_round :: "real \<Rightarrow> real" where
  "float_round x =
     (if x = 0 then 0
      else sgn x * (ulp x * of_int (round_half_even (\<bar>x\<bar> / ulp x))))"


section \<open>Properties of the frontier\<close>

subsection \<open>What \<open>add_urls\<close> computes\<close>

lemma add_urls_visited [simp]: "visited (add_urls m us) = visited m"
  by (induction us arbitrary: m) auto

lemma add_urls_max_urls [simp]: "max_urls (add_urls m us) = max_urls m"
  by (induction us arbitrary: m) auto

lemma add_urls_queue:
  "queue (add_urls m us) =
     queue m @ take (nat (max_urls m - int (length (queue m))))
                    (filter (\<lambda>u. u \<notin> visited m) us)"
proof (induction us arbitrary: m)
  case Nil
  show ?case by simp
next
  case (Cons u us)
  show ?case
  proof (cases "u \<notin> visited m \<and> int (length (queue m)) < max_urls m")
    case True
    then obtain k where k: "nat (max_urls m - int (length (queue m))) = Suc k"
      by (cases "nat (max_urls m - int (length (queue m)))") auto
    then have "nat (max_urls m - int (length (queue m @ [u]))) = k"
      by simp
    with True k show ?thesis
      by (simp add: Cons.IH)
  next
    case False
    show ?thesis
    proof (cases "u \<in> visited m")
      case True
      then show ?thesis by (simp add: Cons.IH)
    next
      case notin: False
      with False have "nat (max_urls m - int (length (queue m))) = 0"
        by simp
      with False show ?thesis by (simp add: Cons.IH)
    qed
  qed
qed

lemma add_urls_length:
  "int (length (queue m)) \<le> max_urls m \<Longrightarrow>
   int (length (queue (add_urls m us))) \<le> max_urls m"
  by (simp add: add_urls_queue)

lemma frontier_step_max_urls [simp]: "max_urls (frontier_step m c) = max_urls m"
  by (cases c) (auto simp: get_next_url_def mark_visited_def split: list.splits)

lemma frontier_step_bound:
  "int (length (queue m)) \<le> max_urls m \<Longrightarrow>
   int (length (queue (frontier_step m c))) \<le> max_urls m"
  by (cases c) (auto simp: add_urls_length get_next_url_def mark_visited_def split: list.splits)

lemma frontier_run_bound:
  "int (length (queue m)) \<le> max_urls m \<Longrightarrow>
   int (length (queue (frontier_run m cs))) \<le> max_urls m"
  unfolding frontier_run_def
proof (induction cs arbitrary: m)
  case Nil
  then show ?case by simp
next
  case (Cons c cs)
  have "int (length (queue (frontier_step m c))) \<le> max_urls (frontier_step m c)"
    using Cons.prems by (simp add: frontier_step_bound)
  from Cons.IH [OF this] show ?case by simp
qed

text \<open>
  C8 (capacity bound). A frontier built with a capacity \<open>n \<ge> 0\<close> never holds more than
  \<open>n\<close> URLs, whatever calls of \<open>add_urls\<close>, \<open>get_next_url\<close> and \<open>mark_visited\<close> are
  made on it and in whatever order. A call of \<open>add_urls\<close> raises nothing and keeps the
  queue it found; it appends the not yet visited URLs of its argument, in order, as far as
  the free room goes, and the URLs beyond that are left out.
\<close>

theorem frontier_capacity_bound:
  assumes "0 \<le> n"
  shows "int (length (queue (frontier_run (URLManager_init n) cs))) \<le> n \<and>
         queue (add_urls m us) =
           queue m @ take (nat (max_urls m - int (length (queue m))))
                          (filter (\<lambda>u. u \<notin> visited m) us)"
proof
  have "int (length (queue (URLManager_init n))) \<le> max_urls (URLManager_init n)"
    using assms by (simp add: URLManager_init_def)
  from frontier_run_bound [OF this]
  show "int (length (queue (frontier_run (URLManager_init n) cs))) \<le> n"
    by (simp add: URLManager_init_def)
next
  show "queue (add_urls m us) =
          queue m @ take (nat (max_urls m - int (length (queue m))))
                         (filter (\<lambda>u. u \<notin> visited m) us)"
    by (rule add_urls_queue)
qed

theorem frontier_capacity_bound_witness:
  "(0::int) \<le> 2 \<and>
   int (length (queue (frontier_run (URLManager_init 2)
          [AddUrls [''http://a'', ''http://b'', ''http://c''], NextUrl,
           MarkVisited ''http://a'', AddUrls [''http://a'', ''http://d'', ''http://e'']]))) \<le> 2 \<and>
   queue (add_urls (URLManager_init 2) [''http://a'', ''http://b'', ''http://c''])
     = [''http://a'', ''http://b'']"
proof -
  have h: "(0::int) \<le> 2" by simp
  from frontier_capacity_bound [OF h, of
      "[AddUrls [''http://a'', ''http://b'', ''http://c''], NextUrl,
        MarkVisited ''http://a'', AddUrls [''http://a'', ''http://d'', ''http://e'']]"
      "URLManager_init 2" "[''http://a'', ''http://b'', ''http://c'']"]
  show ?thesis
    by (simp add: URLManager_init_def)
qed



section \<open>Properties of item processing and of the crawl loop\<close>

declare crawl_loop.simps [simp del]

lemma get_next_url_visited [simp]: "visited (snd (get_next_url m)) = visited m"
  by (simp add: get_next_url_def split: list.splits)

lemma crawl_loop_visited:
  "crawl_loop web adapter flds n um rows = Inr (um', rows') \<Longrightarrow> visited um' = visited um"
proof (induction web adapter flds n um rows rule: crawl_loop.induct)
  case (1 web adapter flds n um rows)
  show ?case
  proof (cases "fst (get_next_url um)")
    case None
    with "1.prems" show ?thesis by (subst (asm) crawl_loop.simps) auto
  next
    case (Some u)
    show ?thesis
    proof (cases "u = []")
      case True
      with Some "1.prems" show ?thesis by (subst (asm) crawl_loop.simps) auto
    next
      case False
      show ?thesis
      proof (cases "parse (web n u) u")
        case (Inl e)
        with Some False "1.prems" show ?thesis by (subst (asm) crawl_loop.simps) auto
      next
        case (Inr items)
        with Some False "1.prems"
        have "crawl_loop web adapter flds (Suc n) (snd (get_next_url um))
                (process_items adapter flds items rows) = Inr (um', rows')"
          by (subst (asm) crawl_loop.simps) auto
        from "1.IH" [OF Some False Inr this] show ?thesis by simp
      qed
    qed
  qed
qed

lemma start_crawl_loop:
  assumes "start_crawl web adapter cm urls keywords flds = Inr (n, cm')"
  obtains um rows where
    "crawl_loop web adapter flds 0 (add_urls (url_manager cm) urls) [] = Inr (um, rows)"
    and "n = length rows" and "url_manager cm' = um"
    and "storage cm' = (if rows \<noteq> [] then storage cm @ [(rows, ''export'')] else storage cm)"
  using assms by (auto simp: start_crawl_def Let_def split: sum.splits if_splits)

lemmas crawl_eval =
  crawl_loop.simps start_crawl_def CrawlerManager_init_def URLManager_init_def
  get_next_url_def KeywordSpider_init_def parse_def process_item_def parse_data_def
  DeepSeekAdapter_extract_json_def validate_def Let_def strip_def is_space_def
  whitespace_chars_def clean_text_def strip_scripts_def remove_iframes_def TAG_RE_match_def
  to_dict_def lower_def lower_char_def upper_chars_def lower_chars_def after_gt_def
  closing_delimiter_def




text \<open>
  C4 (mark visited in the loop). As stated the claim fails: \<open>start_crawl\<close> never calls
  \<open>mark_visited\<close>. After a run that fetched \<open>http://a\<close> and exported its row, the
  \<open>visited\<close> set of the frontier is still empty.
\<close>

theorem marks_visited_counterexample:
  "start_crawl (\<lambda>n u. Page (Title (Some '' A page '')) ''some text'')
     DeepSeekAdapter_extract_json CrawlerManager_init [''http://a''] None
     (Some [''title'', ''url''])
   = Inr (1, \<lparr>url_manager = \<lparr>visited = {}, queue = [], max_urls = 200\<rparr>,
              spiders = [\<lparr>spider_keywords = []\<rparr>],
              storage = [([[(''url'', PStr ''http://a''), (''title'', PStr ''A page''),
                            (''content'', PStr ''some text'')]], ''export'')]\<rparr>)"
  by (simp add: crawl_eval)

text \<open>
  C4, amended. \<open>get_next_url\<close> does not mark the URL it pops as visited, and neither
  does the crawl loop: a call of \<open>start_crawl\<close> that returns leaves the \<open>visited\<close> set
  of the frontier as it found it. Only a caller's own \<open>mark_visited\<close> adds to it.
\<close>

theorem start_crawl_leaves_visited:
  "visited (snd (get_next_url m)) = visited m \<and>
   (start_crawl web adapter cm urls keywords flds = Inr (n, cm') \<longrightarrow>
      visited (url_manager cm') = visited (url_manager cm)) \<and>
   visited (mark_visited m u) = insert u (visited m)"
proof -
  have "visited (url_manager cm') = visited (url_manager cm)"
    if h: "start_crawl web adapter cm urls keywords flds = Inr (n, cm')"
  proof -
    from h obtain um rows where
      loop: "crawl_loop web adapter flds 0 (add_urls (url_manager cm) urls) [] = Inr (um, rows)"
      and um: "url_manager cm' = um"
      by (rule start_crawl_loop)
    from crawl_loop_visited [OF loop] um show ?thesis by simp
  qed
  then show ?thesis by (simp add: mark_visited_def)
qed

theorem start_crawl_leaves_visited_witness:
  "\<exists>cm'. start_crawl (\<lambda>n u. Page NoTitle ''text'') DeepSeekAdapter_extract_json
            (CrawlerManager_init\<lparr>url_manager := mark_visited (URLManager_init 200) ''http://z''\<rparr>)
            [''http://a'', ''http://z''] None (Some [''title''])
          = Inr (1, cm') \<and>
         visited (url_manager cm') = {''http://z''}"
proof -
  obtain cm' where
    h: "start_crawl (\<lambda>n u. Page NoTitle ''text'') DeepSeekAdapter_extract_json
          (CrawlerManager_init\<lparr>url_manager := mark_visited (URLManager_init 200) ''http://z''\<rparr>)
          [''http://a'', ''http://z''] None (Some [''title''])
        = Inr (1, cm')"
    by (simp add: crawl_eval mark_visited_def)
  from start_crawl_leaves_visited
         [of "mark_visited (URLManager_init 200) ''http://z''" _ _ _ _ _ _ _ _ "''http://z''"]
       h
  have "visited (url_manager cm') = {''http://z''}"
    by (simp add: CrawlerManager_init_def URLManager_init_def mark_visited_def)
  with h show ?thesis by blast
qed


text \<open>
  C10 (the item is mutated before anything can fail). Whatever the adapter does and
  whatever \<open>fields\<close> is, the item that \<open>process_item\<close> leaves behind is the item it
  received with \<open>content\<close> replaced by \<open>clean_text(content)\<close>. The call returns \<open>None\<close>
  exactly when the adapter raises on the cleaned text; the item has been overwritten all
  the same. With the adapter of the sources and \<open>fields = None\<close> the call returns \<open>None\<close>
  and the content, which held a script block, holds the cleaned text.
\<close>

theorem process_item_overwrites_content:
  "fst (process_item adapter item flds) = item\<lparr>content := clean_text (content item)\<rparr> \<and>
   (snd (process_item adapter item flds) = None \<longleftrightarrow>
      (\<exists>e. adapter (clean_text (content item)) flds = Inl e)) \<and>
   process_item DeepSeekAdapter_extract_json
     \<lparr>url = ''http://a'', title = ''t'',
      content = ''<script>x</'' @ [CHR 0x5C] @ ''1>hello''\<rparr> None
   = (\<lparr>url = ''http://a'', title = ''t'', content = ''hello''\<rparr>, None)"
proof -
  have a: "fst (process_item adapter item flds) = item\<lparr>content := clean_text (content item)\<rparr>"
    by (simp add: process_item_def Let_def split: sum.splits)
  have b: "snd (process_item adapter item flds) = None \<longleftrightarrow>
             (\<exists>e. adapter (clean_text (content item)) flds = Inl e)"
    by (auto simp: process_item_def parse_data_def Let_def split: sum.splits)
  have c: "process_item DeepSeekAdapter_extract_json
             \<lparr>url = ''http://a'', title = ''t'',
              content = ''<script>x</'' @ [CHR 0x5C] @ ''1>hello''\<rparr> None
           = (\<lparr>url = ''http://a'', title = ''t'', content = ''hello''\<rparr>, None)"
    by (simp add: crawl_eval)
  from a b c show ?thesis by blast
qed

section \<open>Properties of the keyword stage\<close>









section \<open>Properties of the analysis stage and of the fallback analysis\<close>

lemma fallback_sentiment_cases:
  "fallback_sentiment body = ''positive'' \<or> fallback_sentiment body = ''neutral'' \<or>
   fallback_sentiment body = ''negative''"
  by (simp add: fallback_sentiment_def Let_def)




text \<open>
  C9 (fallback analysis of a disabled parser). A parser that is not enabled answers
  \<open>parse_content\<close> with a dictionary that has the six keys \<open>summary\<close>, \<open>entities\<close>,
  \<open>topics\<close>, \<open>sentiment\<close>, \<open>key_points\<close> and \<open>structured_data\<close>, and whose sentiment is
  \<open>positive\<close>, \<open>neutral\<close> or \<open>negative\<close>, for every content, URL and title.
\<close>

theorem disabled_parser_fallback_keys:
  assumes "\<not> is_enabled p"
  shows "\<exists>d. parse_content p analyse set_order now body u t = Inr (PDict d) \<and>
             list_all (\<lambda>k. map_of d k \<noteq> None) required_keys \<and>
             (map_of d ''sentiment'' = Some (PStr ''positive'') \<or>
              map_of d ''sentiment'' = Some (PStr ''neutral'') \<or>
              map_of d ''sentiment'' = Some (PStr ''negative''))"
  using assms fallback_sentiment_cases [of body]
  by (auto simp: is_enabled_def parse_content_def fallback_parse_def required_keys_def)

theorem disabled_parser_fallback_keys_witness:
  "\<not> is_enabled (DeepSeekParser_init None None) \<and>
   (\<exists>d. parse_content (DeepSeekParser_init None None) (\<lambda>c u t. Inl (APIError ''no client''))
          remdups ''2025-01-01T00:00:00''
          ''This is a test article about Python web development using Scrapy framework.''
          ''http://example.com'' ''Test Article'' = Inr (PDict d) \<and>
        list_all (\<lambda>k. map_of d k \<noteq> None) required_keys \<and>
        (map_of d ''sentiment'' = Some (PStr ''positive'') \<or>
         map_of d ''sentiment'' = Some (PStr ''neutral'') \<or>
         map_of d ''sentiment'' = Some (PStr ''negative'')))"
proof -
  have h: "\<not> is_enabled (DeepSeekParser_init None None)"
    by (simp add: is_enabled_def DeepSeekParser_init_def)
  from h disabled_parser_fallback_keys [OF h] show ?thesis by blast
qed



section \<open>Properties of the relevance score\<close>

subsection \<open>Rounding to the nearest float\<close>












lemma float_round_zero [simp]: "float_round 0 = 0"
  by (simp add: float_round_def)









subsection \<open>The score\<close>









end
